theory Spec2Isabelle
  imports Main "HOL-Library.Word"
begin

section \<open>The message store of the WhatsApp bridge\<close>

text \<open>
  The bridge keeps two SQLite tables, created by \<open>NewMessageStore\<close>:
  \<open>chats (jid PRIMARY KEY, name, last_message_time)\<close> and
  \<open>messages (id, chat_jid, sender, content, timestamp, is_from_me, media_type,
  PRIMARY KEY (id, chat_jid), FOREIGN KEY (chat_jid) REFERENCES chats (jid))\<close>.
  The database is opened with \<open>_foreign_keys=on\<close>, so the foreign key is enforced.
  A table is a list of rows, in insertion order. Timestamps are stored as the text
  produced by \<open>time.Format\<close>.
\<close>

record chat_row =
  jid :: string
  name :: string
  last_message_time :: string

record message_row =
  id_msg :: string
  chat_jid :: string
  sender :: string
  content :: string
  timestamp :: string
  is_from_me :: bool
  media_type :: string

record MessageStore =
  chats :: "chat_row list"
  messages :: "message_row list"

datatype error = ForeignKeyConstraintFailed

text \<open>
  \<open>INSERT OR REPLACE\<close>: the rows that conflict with the new row on the primary key
  are deleted, then the new row is inserted.
\<close>

definition replace_chat :: "chat_row \<Rightarrow> chat_row list \<Rightarrow> chat_row list" where
  "replace_chat r rows = filter (\<lambda>x. jid x \<noteq> jid r) rows @ [r]"

definition same_key :: "string \<Rightarrow> string \<Rightarrow> message_row \<Rightarrow> bool" where
  "same_key i c x \<longleftrightarrow> id_msg x = i \<and> chat_jid x = c"

definition replace_message :: "message_row \<Rightarrow> message_row list \<Rightarrow> message_row list" where
  "replace_message r rows = filter (\<lambda>x. \<not> same_key (id_msg r) (chat_jid r) x) rows @ [r]"

text \<open>
  \<open>StoreChat\<close> (main.go, 89-97). The time is formatted by the Go library function
  \<open>time.Format\<close>, which is a parameter \<open>fmt\<close> of the model.
\<close>

definition StoreChat ::
  "('t \<Rightarrow> string) \<Rightarrow> MessageStore \<Rightarrow> string \<Rightarrow> string \<Rightarrow> 't \<Rightarrow> MessageStore" where
  "StoreChat fmt store j n lastMessageTime =
     store\<lparr>chats := replace_chat \<lparr>jid = j, name = n, last_message_time = fmt lastMessageTime\<rparr>
                       (chats store)\<rparr>"

text \<open>
  \<open>StoreMessage\<close> (main.go, 100-125): nothing is done for an empty content; an empty
  sender becomes \<open>unknown\<close>; the insert fails, writing nothing, when the foreign key
  has no parent row in \<open>chats\<close>.
\<close>

definition message_of ::
  "('t \<Rightarrow> string) \<Rightarrow> string \<Rightarrow> string \<Rightarrow> string \<Rightarrow> string \<Rightarrow> 't \<Rightarrow> bool \<Rightarrow> string
     \<Rightarrow> message_row" where
  "message_of fmt i chatJID sndr cnt ts isFromMe mediaType =
     \<lparr>id_msg = i, chat_jid = chatJID,
      sender = (if sndr = [] then ''unknown'' else sndr),
      content = cnt, timestamp = fmt ts, is_from_me = isFromMe, media_type = mediaType\<rparr>"

definition chat_exists :: "MessageStore \<Rightarrow> string \<Rightarrow> bool" where
  "chat_exists store chatJID \<longleftrightarrow> chatJID \<in> set (map jid (chats store))"

definition StoreMessage ::
  "('t \<Rightarrow> string) \<Rightarrow> MessageStore \<Rightarrow> string \<Rightarrow> string \<Rightarrow> string \<Rightarrow> string \<Rightarrow> 't \<Rightarrow> bool
     \<Rightarrow> string \<Rightarrow> error + MessageStore" where
  "StoreMessage fmt store i chatJID sndr cnt ts isFromMe mediaType =
     (if cnt = [] then Inr store
      else if \<not> chat_exists store chatJID then Inl ForeignKeyConstraintFailed
      else Inr (store\<lparr>messages :=
                  replace_message (message_of fmt i chatJID sndr cnt ts isFromMe mediaType)
                    (messages store)\<rparr>))"



section \<open>Library values and the protocol session\<close>

text \<open>
  A \<open>types.JID\<close> is used through its \<open>User\<close> and \<open>Server\<close> fields only. The
  functions of the Go and whatsmeow libraries that the bridge calls are parameters:
  \<open>time.Format\<close> with the layout of the bridge, \<open>time.Unix\<close>, \<open>time.Parse\<close>
  with the same layout, the zero time, \<open>types.ParseJID\<close> (\<open>Inl\<close> carries the
  error text) and \<open>JID.String\<close>.
\<close>

record JID =
  User :: string
  Server :: string

record 't lib =
  Format :: "'t \<Rightarrow> string"
  Unix :: "int \<Rightarrow> 't"
  Parse :: "string \<Rightarrow> 't option"
  ZeroTime :: 't
  ParseJID :: "string \<Rightarrow> string + JID"
  JIDString :: "JID \<Rightarrow> string"

text \<open>
  The session \<open>whatsmeow.Client\<close>: whether it is connected, its own address
  \<open>Store.ID\<close> (a pointer, nil before login), the group name returned by
  \<open>GetGroupInfo\<close> and the full name returned by \<open>Store.Contacts.GetContact\<close>
  (\<open>None\<close> when the call returns an error), and \<open>SendMessage\<close>, which returns the
  error text when it fails.
\<close>

record client =
  IsConnected :: bool
  StoreID :: "JID option"
  GetGroupInfo :: "JID \<Rightarrow> string option"
  GetContact :: "JID \<Rightarrow> string option"
  SendMessage :: "JID \<Rightarrow> string \<Rightarrow> string option"

text \<open>
  \<open>waProto.Message\<close>: independent optional fields (pointers), of which the bridge
  reads the conversation text, the extended text and whether one of the four media
  parts is present.
\<close>

record waExtendedText =
  Text :: "string option"

record waMessage =
  Conversation :: "string option"
  ExtendedTextMessage :: "waExtendedText option"
  ImageMessage :: "unit option"
  VideoMessage :: "unit option"
  AudioMessage :: "unit option"
  DocumentMessage :: "unit option"

definition GetConversation :: "waMessage \<Rightarrow> string" where
  "GetConversation m = (case Conversation m of None \<Rightarrow> [] | Some s \<Rightarrow> s)"

definition GetText :: "waExtendedText \<Rightarrow> string" where
  "GetText e = (case Text e of None \<Rightarrow> [] | Some s \<Rightarrow> s)"

text \<open>The getters of a media part are nil-safe: on a nil message they return nil.\<close>

definition GetImageMessage :: "waMessage option \<Rightarrow> unit option" where
  "GetImageMessage m = (case m of None \<Rightarrow> None | Some p \<Rightarrow> ImageMessage p)"

definition GetVideoMessage :: "waMessage option \<Rightarrow> unit option" where
  "GetVideoMessage m = (case m of None \<Rightarrow> None | Some p \<Rightarrow> VideoMessage p)"

definition GetAudioMessage :: "waMessage option \<Rightarrow> unit option" where
  "GetAudioMessage m = (case m of None \<Rightarrow> None | Some p \<Rightarrow> AudioMessage p)"

definition GetDocumentMessage :: "waMessage option \<Rightarrow> unit option" where
  "GetDocumentMessage m = (case m of None \<Rightarrow> None | Some p \<Rightarrow> DocumentMessage p)"

text \<open>\<open>extractTextContent\<close> (main.go, 188-202).\<close>

definition extractTextContent :: "waMessage option \<Rightarrow> string" where
  "extractTextContent msg =
     (case msg of
        None \<Rightarrow> []
      | Some m \<Rightarrow>
          if GetConversation m \<noteq> [] then GetConversation m
          else (case ExtendedTextMessage m of Some e \<Rightarrow> GetText e | None \<Rightarrow> []))"

text \<open>\<open>events.Message\<close> and the events that \<open>handleEvent\<close> distinguishes.\<close>

record 't MessageInfo =
  ID :: string
  Chat :: JID
  Sender :: JID
  Timestamp :: 't
  IsFromMe :: bool

record 't evMessage =
  Info :: "'t MessageInfo"
  Message :: "waMessage option"

datatype 't event =
  EvMessage "'t evMessage" | EvConnected | EvDisconnected | EvLoggedOut | EvOther

text \<open>The conversations of a history sync.\<close>

record MessageKey =
  FromMe :: "bool option"
  Participant :: "string option"
  KeyID :: "string option"

record WebMessageInfo =
  Key :: "MessageKey option"
  WebMessage :: "waMessage option"
  MessageTimestamp :: "64 word option"

record HistorySyncMsg =
  SyncMessage :: "WebMessageInfo option"

record Conversation =
  ConvID :: "string option"
  Messages :: "HistorySyncMsg option list"
  DisplayName :: "string option"
  ConvName :: "string option"

definition GetMessageTimestamp :: "WebMessageInfo \<Rightarrow> 64 word" where
  "GetMessageTimestamp m = (case MessageTimestamp m of None \<Rightarrow> 0 | Some t \<Rightarrow> t)"

section \<open>Chat names\<close>

text \<open>
  \<open>GetChatName\<close> (main.go, 440-520). The query \<open>SELECT name FROM chats WHERE jid = ?\<close>
  gives the name of the row of that address, or an error when there is none. The
  conversation of a history sync is passed as an interface value and read by
  reflection: its fields \<open>DisplayName\<close> and \<open>Name\<close>.
\<close>

definition existingName :: "MessageStore \<Rightarrow> string \<Rightarrow> string option" where
  "existingName store chatJID = map_option name (find (\<lambda>r. jid r = chatJID) (chats store))"

definition conversation_name :: "Conversation option \<Rightarrow> string" where
  "conversation_name conversation =
     (case conversation of
        None \<Rightarrow> []
      | Some c \<Rightarrow>
          if DisplayName c \<noteq> None \<and> DisplayName c \<noteq> Some [] then the (DisplayName c)
          else if ConvName c \<noteq> None \<and> ConvName c \<noteq> Some [] then the (ConvName c)
          else [])"

definition group_name :: "client \<Rightarrow> JID \<Rightarrow> Conversation option \<Rightarrow> string" where
  "group_name cl j conversation =
     (if conversation_name conversation \<noteq> [] then conversation_name conversation
      else (case GetGroupInfo cl j of
              Some g \<Rightarrow> if g \<noteq> [] then g else ''Group '' @ User j
            | None \<Rightarrow> ''Group '' @ User j))"

definition contact_name :: "client \<Rightarrow> JID \<Rightarrow> string \<Rightarrow> string" where
  "contact_name cl j sndr =
     (if GetContact cl j \<noteq> None \<and> GetContact cl j \<noteq> Some [] then the (GetContact cl j)
      else if sndr \<noteq> [] then sndr
      else User j)"

definition GetChatName ::
  "client \<Rightarrow> MessageStore \<Rightarrow> JID \<Rightarrow> string \<Rightarrow> Conversation option \<Rightarrow> string \<Rightarrow> string" where
  "GetChatName cl store j chatJID conversation sndr =
     (if existingName store chatJID \<noteq> None \<and> existingName store chatJID \<noteq> Some []
      then the (existingName store chatJID)
      else if Server j = ''g.us'' then group_name cl j conversation
      else contact_name cl j sndr)"

section \<open>The handlers\<close>

text \<open>
  A handler runs on the store and leaves a store. Beside the store, the model keeps
  the list of the rows written so far, in the order of the writes: the address of each
  chat row upserted and the key of each message row inserted. A failed insert and
  the call with an empty content write nothing, so they add nothing to the list. The
  handlers log the error of a failed write and go on.
\<close>

datatype write_op = ChatUpsert string | MessageInsert string string

record run =
  db :: MessageStore
  writes :: "write_op list"

definition do_StoreChat :: "'t lib \<Rightarrow> run \<Rightarrow> string \<Rightarrow> string \<Rightarrow> 't \<Rightarrow> run" where
  "do_StoreChat l w chatJID n t =
     w\<lparr>db := StoreChat (Format l) (db w) chatJID n t,
       writes := writes w @ [ChatUpsert chatJID]\<rparr>"

definition do_StoreMessage ::
  "'t lib \<Rightarrow> run \<Rightarrow> string \<Rightarrow> string \<Rightarrow> string \<Rightarrow> string \<Rightarrow> 't \<Rightarrow> bool \<Rightarrow> string \<Rightarrow> run" where
  "do_StoreMessage l w i chatJID sndr cnt t isFromMe mediaType =
     (case StoreMessage (Format l) (db w) i chatJID sndr cnt t isFromMe mediaType of
        Inl e \<Rightarrow> w
      | Inr s \<Rightarrow>
          w\<lparr>db := s,
            writes := writes w @ (if cnt = [] then [] else [MessageInsert i chatJID])\<rparr>)"

text \<open>\<open>handleMessage\<close> (main.go, 259-304).\<close>

definition handleMessage :: "'t lib \<Rightarrow> client \<Rightarrow> run \<Rightarrow> 't evMessage \<Rightarrow> run" where
  "handleMessage l cl w msg =
     (let chatJID = JIDString l (Chat (Info msg));
          sndr = User (Sender (Info msg));
          n = GetChatName cl (db w) (Chat (Info msg)) chatJID None sndr;
          w1 = do_StoreChat l w chatJID n (Timestamp (Info msg));
          cnt = extractTextContent (Message msg)
      in if cnt = [] then w1
         else do_StoreMessage l w1 (ID (Info msg)) chatJID sndr cnt (Timestamp (Info msg))
                (IsFromMe (Info msg)) ''text'')"

text \<open>
  \<open>handleEvent\<close> (main.go, 681-724), the handler that \<open>main\<close> registers with the
  session. It opens the store itself; \<open>opened\<close> tells whether \<open>NewMessageStore\<close>
  succeeded.
\<close>

definition event_mediaType :: "waMessage option \<Rightarrow> string" where
  "event_mediaType m =
     (if GetImageMessage m \<noteq> None then ''image''
      else if GetVideoMessage m \<noteq> None then ''video''
      else if GetAudioMessage m \<noteq> None then ''audio''
      else if GetDocumentMessage m \<noteq> None then ''document''
      else ''text'')"

definition handleEvent :: "'t lib \<Rightarrow> bool \<Rightarrow> run \<Rightarrow> 't event \<Rightarrow> run" where
  "handleEvent l opened w evt =
     (case evt of
        EvMessage v \<Rightarrow>
          if \<not> opened then w
          else do_StoreMessage l w (ID (Info v)) (JIDString l (Chat (Info v)))
                 (JIDString l (Sender (Info v))) (extractTextContent (Message v))
                 (Timestamp (Info v)) (IsFromMe (Info v)) (event_mediaType (Message v))
      | EvConnected \<Rightarrow> w
      | EvDisconnected \<Rightarrow> w
      | EvLoggedOut \<Rightarrow> w
      | EvOther \<Rightarrow> w)"

text \<open>
  \<open>handleHistorySync\<close> (main.go, 523-642). Reading \<open>client.Store.ID.User\<close> when
  \<open>Store.ID\<close> is nil is a nil dereference: the handler panics, and the store stays
  as the writes before the panic left it.
\<close>

datatype 'a outcome = Done 'a | Panicked 'a

definition result_of :: "'a outcome \<Rightarrow> 'a" where
  "result_of r = (case r of Done x \<Rightarrow> x | Panicked x \<Rightarrow> x)"

definition history_content :: "WebMessageInfo \<Rightarrow> string" where
  "history_content m =
     (case WebMessage m of
        None \<Rightarrow> []
      | Some p \<Rightarrow>
          if GetConversation p \<noteq> [] then GetConversation p
          else (case ExtendedTextMessage p of Some e \<Rightarrow> GetText e | None \<Rightarrow> []))"

definition history_isFromMe :: "WebMessageInfo \<Rightarrow> bool" where
  "history_isFromMe m =
     (case Key m of
        None \<Rightarrow> False
      | Some k \<Rightarrow> (case FromMe k of None \<Rightarrow> False | Some b \<Rightarrow> b))"

definition history_sender :: "client \<Rightarrow> JID \<Rightarrow> WebMessageInfo \<Rightarrow> string option" where
  "history_sender cl j m =
     (case Key m of
        None \<Rightarrow> Some (User j)
      | Some k \<Rightarrow>
          if \<not> history_isFromMe m \<and> Participant k \<noteq> None \<and> Participant k \<noteq> Some []
          then Participant k
          else if history_isFromMe m then map_option User (StoreID cl)
          else Some (User j))"

definition history_msgID :: "WebMessageInfo \<Rightarrow> string" where
  "history_msgID m =
     (case Key m of
        None \<Rightarrow> []
      | Some k \<Rightarrow> (case KeyID k of None \<Rightarrow> [] | Some i \<Rightarrow> i))"

definition store_history_message ::
  "'t lib \<Rightarrow> client \<Rightarrow> JID \<Rightarrow> string \<Rightarrow> run \<Rightarrow> HistorySyncMsg option \<Rightarrow> run outcome" where
  "store_history_message l cl j chatJID w msg =
     (case msg of
        None \<Rightarrow> Done w
      | Some h \<Rightarrow>
          (case SyncMessage h of
             None \<Rightarrow> Done w
           | Some m \<Rightarrow>
               if history_content m = [] then Done w
               else (case history_sender cl j m of
                       None \<Rightarrow> Panicked w
                     | Some sndr \<Rightarrow>
                         if GetMessageTimestamp m = 0 then Done w
                         else Done (do_StoreMessage l w (history_msgID m) chatJID sndr
                                      (history_content m)
                                      (Unix l (sint (GetMessageTimestamp m)))
                                      (history_isFromMe m) ''text''))))"

fun store_history_messages ::
  "'t lib \<Rightarrow> client \<Rightarrow> JID \<Rightarrow> string \<Rightarrow> run \<Rightarrow> HistorySyncMsg option list \<Rightarrow> run outcome" where
  "store_history_messages l cl j chatJID w [] = Done w"
| "store_history_messages l cl j chatJID w (m # ms) =
     (case store_history_message l cl j chatJID w m of
        Done w1 \<Rightarrow> store_history_messages l cl j chatJID w1 ms
      | Panicked w1 \<Rightarrow> Panicked w1)"

definition sync_conversation :: "'t lib \<Rightarrow> client \<Rightarrow> run \<Rightarrow> Conversation \<Rightarrow> run outcome" where
  "sync_conversation l cl w conversation =
     (case ConvID conversation of
        None \<Rightarrow> Done w
      | Some chatJID \<Rightarrow>
          (case ParseJID l chatJID of
             Inl e \<Rightarrow> Done w
           | Inr j \<Rightarrow>
               let n = GetChatName cl (db w) j chatJID (Some conversation) []
               in (case Messages conversation of
                     [] \<Rightarrow> Done w
                   | latestMsg # rest \<Rightarrow>
                       (case latestMsg of
                          None \<Rightarrow> Done w
                        | Some h \<Rightarrow>
                            (case SyncMessage h of
                               None \<Rightarrow> Done w
                             | Some m \<Rightarrow>
                                 if GetMessageTimestamp m = 0 then Done w
                                 else store_history_messages l cl j chatJID
                                        (do_StoreChat l w chatJID n
                                           (Unix l (sint (GetMessageTimestamp m))))
                                        (Messages conversation))))))"

fun handleHistorySync :: "'t lib \<Rightarrow> client \<Rightarrow> run \<Rightarrow> Conversation list \<Rightarrow> run outcome" where
  "handleHistorySync l cl w [] = Done w"
| "handleHistorySync l cl w (c # cs) =
     (case sync_conversation l cl w c of
        Done w1 \<Rightarrow> handleHistorySync l cl w1 cs
      | Panicked w1 \<Rightarrow> Panicked w1)"

section \<open>Reading the chats\<close>

text \<open>
  \<open>GetChats\<close> (main.go, 159-185). The query orders the rows by \<open>last_message_time\<close>
  descending; the text values compare byte by byte, which \<open>time_less\<close> does on the
  codes of the characters. The rows are inserted one by one into a new row list of
  the query result (\<open>insert_desc\<close>). The loop then puts each row into a Go map from
  the address to the parsed time, the zero time where the text does not parse, and
  the map is what the function returns.
\<close>

fun time_less :: "string \<Rightarrow> string \<Rightarrow> bool" where
  "time_less [] [] = False"
| "time_less [] (y # ys) = True"
| "time_less (x # xs) [] = False"
| "time_less (x # xs) (y # ys) =
     (of_char x < (of_char y :: nat) \<or> (x = y \<and> time_less xs ys))"

fun insert_desc :: "chat_row \<Rightarrow> chat_row list \<Rightarrow> chat_row list" where
  "insert_desc r [] = [r]"
| "insert_desc r (x # xs) =
     (if time_less (last_message_time x) (last_message_time r) then r # x # xs
      else x # insert_desc r xs)"

definition query_chats_desc :: "MessageStore \<Rightarrow> chat_row list" where
  "query_chats_desc store = foldr insert_desc (chats store) []"

definition scan_chats :: "'t lib \<Rightarrow> chat_row list \<Rightarrow> (string \<rightharpoonup> 't)" where
  "scan_chats l rows =
     fold (\<lambda>r m. m(jid r \<mapsto>
                    (case Parse l (last_message_time r) of None \<Rightarrow> ZeroTime l | Some t \<Rightarrow> t)))
       rows Map.empty"

definition GetChats :: "'t lib \<Rightarrow> MessageStore \<Rightarrow> (string \<rightharpoonup> 't)" where
  "GetChats l store = scan_chats l (query_chats_desc store)"

section \<open>The send endpoint\<close>

text \<open>
  \<open>sendWhatsAppMessage\<close> (main.go, 217-256) and the handler of \<open>/api/send\<close> in
  \<open>startRESTServer\<close> (main.go, 309-352). The body of a request is what the JSON
  decoder made of it: \<open>None\<close> when decoding failed, and a field absent from the JSON
  text is the empty string. Beside its answer, each function gives the list of the
  calls of the session's \<open>SendMessage\<close> that it made.
\<close>

record SendMessageRequest =
  Recipient :: string
  MessageText :: string

record request =
  Method :: string
  Body :: "SendMessageRequest option"

record response =
  Status :: nat
  Success :: "bool option"
  Detail :: string

definition sendWhatsAppMessage ::
  "'t lib \<Rightarrow> client \<Rightarrow> string \<Rightarrow> string \<Rightarrow> (bool \<times> string) \<times> (JID \<times> string) list" where
  "sendWhatsAppMessage l cl recipient message =
     (if \<not> IsConnected cl then ((False, ''Not connected to WhatsApp''), [])
      else (case (if CHR ''@'' \<in> set recipient then ParseJID l recipient
                  else Inr \<lparr>User = recipient, Server = ''s.whatsapp.net''\<rparr>) of
              Inl e \<Rightarrow> ((False, ''Error parsing JID: '' @ e), [])
            | Inr recipientJID \<Rightarrow>
                (case SendMessage cl recipientJID message of
                   Some e \<Rightarrow> ((False, ''Error sending message: '' @ e), [(recipientJID, message)])
                 | None \<Rightarrow> ((True, ''Message sent to '' @ recipient), [(recipientJID, message)]))))"

definition send_handler ::
  "'t lib \<Rightarrow> client \<Rightarrow> request \<Rightarrow> response \<times> (JID \<times> string) list" where
  "send_handler l cl r =
     (if Method r \<noteq> ''POST''
      then (\<lparr>Status = 405, Success = None, Detail = ''Method not allowed''\<rparr>, [])
      else (case Body r of
              None \<Rightarrow> (\<lparr>Status = 400, Success = None, Detail = ''Invalid request format''\<rparr>, [])
            | Some req \<Rightarrow>
                if Recipient req = []
                then (\<lparr>Status = 400, Success = None, Detail = ''Recipient is required''\<rparr>, [])
                else if MessageText req = []
                then (\<lparr>Status = 400, Success = None, Detail = ''Message is required''\<rparr>, [])
                else (case sendWhatsAppMessage l cl (Recipient req) (MessageText req) of
                        ((success, message), sent) \<Rightarrow>
                          (\<lparr>Status = (if success then 200 else 500), Success = Some success,
                            Detail = message\<rparr>, sent))))"

section \<open>Repeated calls and example values\<close>



text \<open>
  Values for the examples: times are seconds since the epoch, two of which have a
  text; an address is split at its first \<open>@\<close>.
\<close>

definition ex_lib :: "int lib" where
  "ex_lib =
     \<lparr>Format = (\<lambda>t. if t = 0 then ''1970-01-01 00:00:00'' else ''2023-11-14 22:13:20''),
      Unix = (\<lambda>n. n),
      Parse = (\<lambda>s. if s = ''1970-01-01 00:00:00'' then Some 0
                    else if s = ''2023-11-14 22:13:20'' then Some 1700000000 else None),
      ZeroTime = - 62135596800,
      ParseJID = (\<lambda>s. Inr \<lparr>User = takeWhile (\<lambda>c. c \<noteq> CHR ''@'') s,
                             Server = drop 1 (dropWhile (\<lambda>c. c \<noteq> CHR ''@'') s)\<rparr>),
      JIDString = (\<lambda>j. if User j = [] then Server j else User j @ ''@'' @ Server j)\<rparr>"

definition ex_client :: client where
  "ex_client =
     \<lparr>IsConnected = True, StoreID = Some \<lparr>User = ''999'', Server = ''s.whatsapp.net''\<rparr>,
      GetGroupInfo = (\<lambda>j. None), GetContact = (\<lambda>j. None),
      SendMessage = (\<lambda>j m. None)\<rparr>"

definition empty_store :: MessageStore where
  "empty_store = \<lparr>chats = [], messages = []\<rparr>"

definition one_chat_store :: MessageStore where
  "one_chat_store =
     \<lparr>chats = [\<lparr>jid = ''123@g.us'', name = ''Traders'',
                 last_message_time = ''1970-01-01 00:00:00''\<rparr>],
      messages = []\<rparr>"

text \<open>
  The most recent message of a conversation, the first of its list, has no usable
  timestamp: it is nil, or carries no message, or its timestamp is zero.
\<close>

definition latest_lacks_timestamp :: "Conversation \<Rightarrow> bool" where
  "latest_lacks_timestamp c =
     (case Messages c of
        [] \<Rightarrow> False
      | latestMsg # rest \<Rightarrow>
          (case latestMsg of
             None \<Rightarrow> True
           | Some h \<Rightarrow>
               (case SyncMessage h of
                  None \<Rightarrow> True
                | Some m \<Rightarrow> GetMessageTimestamp m = 0)))"

definition two_chat_store :: MessageStore where
  "two_chat_store =
     \<lparr>chats = [\<lparr>jid = ''123@g.us'', name = ''Traders'',
                 last_message_time = ''1970-01-01 00:00:00''\<rparr>,
               \<lparr>jid = ''555@s.whatsapp.net'', name = ''Ann'',
                 last_message_time = ''2023-11-14 22:13:20''\<rparr>],
      messages = []\<rparr>"

text \<open>
  The rows of \<open>w'\<close> that \<open>w\<close> does not have all carry the kind \<open>text\<close>.
\<close>

definition only_text_added :: "run \<Rightarrow> run \<Rightarrow> bool" where
  "only_text_added w w' \<longleftrightarrow>
     (\<forall>r \<in> set (messages (db w')). r \<in> set (messages (db w)) \<or> media_type r = ''text'')"

definition no_media_part :: "waMessage option \<Rightarrow> bool" where
  "no_media_part m \<longleftrightarrow>
     GetImageMessage m = None \<and> GetVideoMessage m = None \<and> GetAudioMessage m = None
     \<and> GetDocumentMessage m = None"






text \<open>Example payloads, events and envelopes.\<close>

definition text_payload :: "string \<Rightarrow> waMessage" where
  "text_payload s =
     \<lparr>Conversation = Some s, ExtendedTextMessage = None, ImageMessage = None,
      VideoMessage = None, AudioMessage = None, DocumentMessage = None\<rparr>"

definition image_payload :: waMessage where
  "image_payload =
     \<lparr>Conversation = None, ExtendedTextMessage = None, ImageMessage = Some (),
      VideoMessage = None, AudioMessage = None, DocumentMessage = None\<rparr>"

definition ex_event :: "waMessage \<Rightarrow> int evMessage" where
  "ex_event p =
     \<lparr>Info = \<lparr>ID = ''m1'', Chat = \<lparr>User = ''123'', Server = ''g.us''\<rparr>,
              Sender = \<lparr>User = ''555'', Server = ''s.whatsapp.net''\<rparr>,
              Timestamp = 1700000000, IsFromMe = False\<rparr>,
      Message = Some p\<rparr>"

definition ex_envelope :: "string \<Rightarrow> 64 word option \<Rightarrow> HistorySyncMsg option" where
  "ex_envelope s t =
     Some \<lparr>SyncMessage =
             Some \<lparr>Key = None, WebMessage = Some (text_payload s), MessageTimestamp = t\<rparr>\<rparr>"

definition ex_conversation :: "HistorySyncMsg option list \<Rightarrow> Conversation" where
  "ex_conversation ms =
     \<lparr>ConvID = Some ''123@g.us'', Messages = ms, DisplayName = None, ConvName = None\<rparr>"

definition ex_run :: "MessageStore \<Rightarrow> run" where
  "ex_run store = \<lparr>db = store, writes = []\<rparr>"

text \<open>
  In a list of writes, each message row is inserted after an upsert of the row of
  its chat, in the list itself or among the addresses \<open>S\<close> upserted before.
\<close>

fun chat_first :: "string set \<Rightarrow> write_op list \<Rightarrow> bool" where
  "chat_first S [] = True"
| "chat_first S (ChatUpsert c # ws) = chat_first (insert c S) ws"
| "chat_first S (MessageInsert i c # ws) = (c \<in> S \<and> chat_first S ws)"

definition inserts_of :: "string \<Rightarrow> write_op list \<Rightarrow> bool" where
  "inserts_of c ws \<longleftrightarrow> (\<forall>x \<in> set ws. \<exists>i. x = MessageInsert i c)"

section \<open>Properties of the store\<close>


text \<open>
  C4. \<open>StoreMessage\<close> with an empty content returns success and the store it was
  given, whatever the other arguments are.
\<close>

theorem StoreMessage_empty_content_noop:
  "StoreMessage fmt store i chatJID sndr [] ts isFromMe mediaType = Inr store"
  by (simp add: StoreMessage_def)




section \<open>Properties of the chat names\<close>






section \<open>Properties of the send endpoint\<close>

text \<open>
  C8. A POST request whose decoded body has an empty recipient or an empty message is
  answered with status 400 and no call of the session's \<open>SendMessage\<close> is made; a
  send can only have been made when both fields are non-empty, and then the handler
  does what \<open>sendWhatsAppMessage\<close> does.
\<close>

theorem send_handler_validation:
  "Method r = ''POST'' \<Longrightarrow> Body r = Some req \<Longrightarrow>
   (Recipient req = [] \<or> MessageText req = [] \<longrightarrow>
      Status (fst (send_handler l cl r)) = 400 \<and> snd (send_handler l cl r) = [])
   \<and> (snd (send_handler l cl r) \<noteq> [] \<longrightarrow> Recipient req \<noteq> [] \<and> MessageText req \<noteq> [])
   \<and> (Recipient req \<noteq> [] \<and> MessageText req \<noteq> [] \<longrightarrow>
        snd (send_handler l cl r)
          = snd (sendWhatsAppMessage l cl (Recipient req) (MessageText req))
        \<and> Success (fst (send_handler l cl r))
          = Some (fst (fst (sendWhatsAppMessage l cl (Recipient req) (MessageText req)))))"
  by (auto simp: send_handler_def split: prod.splits)

theorem send_handler_validation_witness:
  "Method \<lparr>Method = ''POST'', Body = Some \<lparr>Recipient = [], MessageText = ''hi''\<rparr>\<rparr> = ''POST''
   \<and> Status (fst (send_handler ex_lib ex_client
         \<lparr>Method = ''POST'', Body = Some \<lparr>Recipient = [], MessageText = ''hi''\<rparr>\<rparr>)) = 400
   \<and> snd (send_handler ex_lib ex_client
         \<lparr>Method = ''POST'', Body = Some \<lparr>Recipient = [], MessageText = ''hi''\<rparr>\<rparr>) = []"
  using send_handler_validation [where r = "\<lparr>Method = ''POST'', Body = Some \<lparr>Recipient = [], MessageText = ''hi''\<rparr>\<rparr>"
      and req = "\<lparr>Recipient = [], MessageText = ''hi''\<rparr>" and l = ex_lib and cl = ex_client]
  by simp

section \<open>Properties of the history sync\<close>

lemma sync_conversation_skip:
  assumes "latest_lacks_timestamp c"
  shows "sync_conversation l cl w c = Done w"
proof (cases "Messages c")
  case Nil
  with assms show ?thesis by (simp add: latest_lacks_timestamp_def)
next
  case (Cons latestMsg rest)
  show ?thesis
  proof (cases latestMsg)
    case None
    with Cons show ?thesis
      by (simp add: sync_conversation_def Let_def split: option.split sum.split)
  next
    case (Some h)
    show ?thesis
    proof (cases "SyncMessage h")
      case None
      with Cons Some show ?thesis
        by (simp add: sync_conversation_def Let_def split: option.split sum.split)
    next
      case (Some m)
      with assms Cons \<open>latestMsg = Some h\<close> have "GetMessageTimestamp m = 0"
        by (simp add: latest_lacks_timestamp_def)
      with Cons Some \<open>latestMsg = Some h\<close> show ?thesis
        by (simp add: sync_conversation_def Let_def split: option.split sum.split)
    qed
  qed
qed

lemma handleHistorySync_skip:
  "latest_lacks_timestamp c \<Longrightarrow>
   handleHistorySync l cl w (pre @ c # post) = handleHistorySync l cl w (pre @ post)"
proof (induction pre arbitrary: w)
  case Nil
  then show ?case by (simp add: sync_conversation_skip)
next
  case (Cons p ps)
  then show ?case by (simp split: outcome.splits)
qed

text \<open>
  C6. A conversation whose most recent message has no usable timestamp leaves the
  store and the list of writes as they were, so no chat row is created or updated for
  it, and the batch goes on as if the conversation were not in it.
\<close>

theorem history_sync_skips_untimed_conversation:
  "latest_lacks_timestamp c \<Longrightarrow>
   sync_conversation l cl w c = Done w
   \<and> handleHistorySync l cl w (pre @ c # post) = handleHistorySync l cl w (pre @ post)"
  by (simp add: sync_conversation_skip handleHistorySync_skip)

theorem history_sync_skips_untimed_conversation_witness:
  "latest_lacks_timestamp (ex_conversation [ex_envelope ''buy 10'' None])
   \<and> handleHistorySync ex_lib ex_client (ex_run empty_store)
        [ex_conversation [ex_envelope ''buy 10'' None],
         ex_conversation [ex_envelope ''sell 5'' (Some 1700000000)]]
     = handleHistorySync ex_lib ex_client (ex_run empty_store)
         [ex_conversation [ex_envelope ''sell 5'' (Some 1700000000)]]
   \<and> sync_conversation ex_lib ex_client (ex_run empty_store)
        (ex_conversation [ex_envelope ''buy 10'' None]) = Done (ex_run empty_store)"
proof -
  have h: "latest_lacks_timestamp (ex_conversation [ex_envelope ''buy 10'' None])"
    by (simp add: latest_lacks_timestamp_def ex_conversation_def ex_envelope_def
        GetMessageTimestamp_def)
  from history_sync_skips_untimed_conversation [OF h, where pre = "[]"
      and post = "[ex_conversation [ex_envelope ''sell 5'' (Some 1700000000)]]"
      and l = ex_lib and cl = ex_client and w = "ex_run empty_store"] h
  show ?thesis by simp
qed









section \<open>Properties of reading the chats\<close>

text \<open>\<open>GetChats\<close> returns an entry for each chat of the store.\<close>

lemma set_insert_desc: "set (insert_desc r xs) = insert r (set xs)"
  by (induction xs) auto

lemma set_query_chats_desc: "set (query_chats_desc store) = set (chats store)"
proof -
  have "set (foldr insert_desc xs []) = set xs" for xs
    by (induction xs) (simp_all add: set_insert_desc)
  then show ?thesis by (simp add: query_chats_desc_def)
qed

lemma dom_scan_fold:
  "dom (fold (\<lambda>r m. m(jid r \<mapsto> g r)) rows m0) = dom m0 \<union> jid ` set rows"
  by (induction rows arbitrary: m0) auto

lemma GetChats_all_chats: "dom (GetChats l store) = jid ` set (chats store)"
  by (simp add: GetChats_def scan_chats_def dom_scan_fold set_query_chats_desc)

text \<open>
  C7. The query of \<open>GetChats\<close> orders the two chats of the example by their time,
  newest first, but the map that is returned is the map that the rows scanned in the
  opposite order give: the order of the query is not in the result.
\<close>

theorem GetChats_order_lost:
  "query_chats_desc two_chat_store
     = [\<lparr>jid = ''555@s.whatsapp.net'', name = ''Ann'', last_message_time = ''2023-11-14 22:13:20''\<rparr>,
        \<lparr>jid = ''123@g.us'', name = ''Traders'', last_message_time = ''1970-01-01 00:00:00''\<rparr>]
   \<and> GetChats ex_lib two_chat_store = scan_chats ex_lib (rev (query_chats_desc two_chat_store))"
proof -
  have q: "query_chats_desc two_chat_store
     = [\<lparr>jid = ''555@s.whatsapp.net'', name = ''Ann'', last_message_time = ''2023-11-14 22:13:20''\<rparr>,
        \<lparr>jid = ''123@g.us'', name = ''Traders'', last_message_time = ''1970-01-01 00:00:00''\<rparr>]"
    by (simp add: query_chats_desc_def two_chat_store_def)
  show ?thesis
    unfolding GetChats_def q
    by (auto simp: scan_chats_def fun_eq_iff)
qed

section \<open>The order of the writes\<close>

text \<open>
  \<open>handleMessage\<close> and \<open>handleHistorySync\<close> upsert the row of a chat before they
  insert a message row of that chat, and \<open>handleMessage\<close> upserts the chat row of an
  event without text.
\<close>

lemma chat_first_mono: "chat_first S ws \<Longrightarrow> S \<subseteq> T \<Longrightarrow> chat_first T ws"
proof (induction S ws arbitrary: T rule: chat_first.induct)
  case (1 S)
  then show ?case by simp
next
  case (2 S c ws)
  from "2.prems" have "insert c S \<subseteq> insert c T" by auto
  with 2 show ?case by simp
next
  case (3 S i c ws)
  then show ?case by auto
qed

lemma chat_first_append:
  "chat_first S a \<Longrightarrow> chat_first S b \<Longrightarrow> chat_first S (a @ b)"
proof (induction S a rule: chat_first.induct)
  case (1 S)
  then show ?case by simp
next
  case (2 S c ws)
  from "2.prems"(2) have "chat_first (insert c S) b" by (rule chat_first_mono) auto
  with 2 show ?case by simp
next
  case (3 S i c ws)
  then show ?case by simp
qed

lemma chat_first_inserts: "inserts_of c ws \<Longrightarrow> c \<in> S \<Longrightarrow> chat_first S ws"
proof (induction ws)
  case Nil
  then show ?case by simp
next
  case (Cons x xs)
  then show ?case by (auto simp: inserts_of_def)
qed

lemma do_StoreMessage_writes:
  "\<exists>new. writes (do_StoreMessage l w i c s cnt t f k) = writes w @ new \<and> inserts_of c new"
  by (simp add: do_StoreMessage_def inserts_of_def split: sum.split)

lemma handleMessage_chat_first:
  "\<exists>new. writes (handleMessage l cl w msg) = writes w @ new \<and> chat_first {} new"
proof -
  let ?c = "JIDString l (Chat (Info msg))"
  have "\<exists>new. writes (do_StoreMessage l (do_StoreChat l w ?c n t) i ?c s cnt t' f k)
      = writes w @ new \<and> chat_first {} new" for n t i s cnt t' f k
  proof -
    from do_StoreMessage_writes [of l "do_StoreChat l w ?c n t" i ?c s cnt t' f k]
    obtain new where n: "writes (do_StoreMessage l (do_StoreChat l w ?c n t) i ?c s cnt t' f k)
        = writes (do_StoreChat l w ?c n t) @ new" and i: "inserts_of ?c new" by blast
    from i have "chat_first {} (ChatUpsert ?c # new)" by (simp add: chat_first_inserts)
    with n show ?thesis by (simp add: do_StoreChat_def)
  qed
  moreover have "\<exists>new. writes (do_StoreChat l w ?c n t) = writes w @ new \<and> chat_first {} new"
    for n t
    by (simp add: do_StoreChat_def)
  ultimately show ?thesis by (simp add: handleMessage_def Let_def)
qed

lemma handleMessage_empty_text:
  "extractTextContent (Message msg) = [] \<Longrightarrow>
   messages (db (handleMessage l cl w msg)) = messages (db w)
   \<and> chats (db (handleMessage l cl w msg)) =
       replace_chat \<lparr>jid = JIDString l (Chat (Info msg)),
                     name = GetChatName cl (db w) (Chat (Info msg)) (JIDString l (Chat (Info msg)))
                              None (User (Sender (Info msg))),
                     last_message_time = Format l (Timestamp (Info msg))\<rparr> (chats (db w))"
  by (simp add: handleMessage_def Let_def do_StoreChat_def StoreChat_def)

lemma store_history_message_writes:
  "\<exists>new. writes (result_of (store_history_message l cl j c w m)) = writes w @ new
     \<and> inserts_of c new"
proof -
  have "\<exists>new. writes w = writes w @ new \<and> inserts_of c new"
    by (simp add: inserts_of_def)
  then show ?thesis
    by (simp add: store_history_message_def result_of_def do_StoreMessage_writes
        split: option.split)
qed

lemma store_history_messages_writes:
  "\<exists>new. writes (result_of (store_history_messages l cl j c w ms)) = writes w @ new
     \<and> inserts_of c new"
proof (induction ms arbitrary: w)
  case Nil
  then show ?case by (simp add: result_of_def inserts_of_def)
next
  case (Cons m ms)
  from store_history_message_writes [of l cl j c w m]
  obtain n1 where n1: "writes (result_of (store_history_message l cl j c w m)) = writes w @ n1"
    and i1: "inserts_of c n1" by blast
  show ?case
  proof (cases "store_history_message l cl j c w m")
    case (Done w1)
    from Cons.IH [of w1]
    obtain n2 where n2: "writes (result_of (store_history_messages l cl j c w1 ms)) = writes w1 @ n2"
      and i2: "inserts_of c n2" by blast
    from i1 i2 have "inserts_of c (n1 @ n2)" by (auto simp: inserts_of_def)
    with n1 n2 Done show ?thesis by (simp add: result_of_def)
  next
    case (Panicked w1)
    with n1 i1 show ?thesis by (simp add: result_of_def)
  qed
qed

lemma sync_conversation_chat_first:
  "\<exists>new. writes (result_of (sync_conversation l cl w c)) = writes w @ new \<and> chat_first {} new"
proof -
  have a: "\<exists>new. writes (result_of (store_history_messages l cl j cj (do_StoreChat l w cj n t) ms))
      = writes w @ new \<and> chat_first {} new" for j cj n t ms
  proof -
    from store_history_messages_writes [of l cl j cj "do_StoreChat l w cj n t" ms]
    obtain new where n: "writes (result_of (store_history_messages l cl j cj
        (do_StoreChat l w cj n t) ms)) = writes (do_StoreChat l w cj n t) @ new"
      and i: "inserts_of cj new" by blast
    from i have "chat_first {} (ChatUpsert cj # new)" by (simp add: chat_first_inserts)
    with n show ?thesis by (simp add: do_StoreChat_def)
  qed
  have b: "\<exists>new. writes (result_of (Done w)) = writes w @ new \<and> chat_first {} new"
    by (simp add: result_of_def)
  from a b show ?thesis
    by (simp add: sync_conversation_def Let_def split: option.split sum.split list.split)
qed

lemma handleHistorySync_chat_first:
  "\<exists>new. writes (result_of (handleHistorySync l cl w cs)) = writes w @ new \<and> chat_first {} new"
proof (induction cs arbitrary: w)
  case Nil
  then show ?case by (simp add: result_of_def)
next
  case (Cons c cs)
  from sync_conversation_chat_first [of l cl w c]
  obtain n1 where n1: "writes (result_of (sync_conversation l cl w c)) = writes w @ n1"
    and c1: "chat_first {} n1" by blast
  show ?case
  proof (cases "sync_conversation l cl w c")
    case (Done w1)
    from Cons.IH [of w1]
    obtain n2 where n2: "writes (result_of (handleHistorySync l cl w1 cs)) = writes w1 @ n2"
      and c2: "chat_first {} n2" by blast
    from c1 c2 have "chat_first {} (n1 @ n2)" by (rule chat_first_append)
    with n1 n2 Done show ?thesis by (simp add: result_of_def)
  next
    case (Panicked w1)
    with n1 c1 show ?thesis by (simp add: result_of_def)
  qed
qed


section \<open>Envelopes without an id\<close>



section \<open>The live handlers\<close>

text \<open>
  C2. On a store that has the chat row, \<open>handleEvent\<close> inserts the message row and
  upserts no chat row, where \<open>handleMessage\<close> upserts the chat row first; on the
  empty store the insert of \<open>handleEvent\<close> fails on the foreign key and the message
  is lost.
\<close>

theorem handleEvent_writes_message_without_chat_upsert:
  "writes (handleEvent ex_lib True (ex_run one_chat_store)
             (EvMessage (ex_event (text_payload ''buy 10''))))
     = [MessageInsert ''m1'' ''123@g.us'']
   \<and> writes (handleMessage ex_lib ex_client (ex_run one_chat_store)
               (ex_event (text_payload ''buy 10'')))
     = [ChatUpsert ''123@g.us'', MessageInsert ''m1'' ''123@g.us'']
   \<and> handleEvent ex_lib True (ex_run empty_store) (EvMessage (ex_event (text_payload ''buy 10'')))
     = ex_run empty_store"
  by (simp add: handleEvent_def handleMessage_def do_StoreMessage_def do_StoreChat_def
      StoreMessage_def StoreChat_def chat_exists_def ex_run_def one_chat_store_def
      empty_store_def ex_event_def text_payload_def ex_lib_def extractTextContent_def
      GetConversation_def replace_chat_def Let_def)

text \<open>
  C3. For an event with an image and no text, \<open>handleEvent\<close> leaves the store as
  it was: the chat row keeps its old time, where \<open>handleMessage\<close> sets it to the
  time of the event.
\<close>

theorem handleEvent_empty_text_leaves_chat_stale:
  "handleEvent ex_lib True (ex_run one_chat_store) (EvMessage (ex_event image_payload))
     = ex_run one_chat_store
   \<and> chats (db (handleMessage ex_lib ex_client (ex_run one_chat_store) (ex_event image_payload)))
     = [\<lparr>jid = ''123@g.us'', name = ''Traders'', last_message_time = ''2023-11-14 22:13:20''\<rparr>]"
  by (simp add: handleEvent_def handleMessage_def do_StoreMessage_def do_StoreChat_def
      StoreMessage_def StoreChat_def chat_exists_def ex_run_def one_chat_store_def
      ex_event_def image_payload_def ex_lib_def extractTextContent_def
      GetConversation_def replace_chat_def Let_def GetChatName_def existingName_def)

section \<open>The kind of the stored rows\<close>

text \<open>
  C9, as the claim states it, fails for \<open>handleEvent\<close> on a payload that carries a
  conversation text and an image part: the row is stored with the kind \<open>image\<close>.
\<close>

theorem handleEvent_image_kind_counterexample:
  "messages (db (handleEvent ex_lib True (ex_run one_chat_store)
      (EvMessage (ex_event ((text_payload ''look'')\<lparr>ImageMessage := Some ()\<rparr>)))))
   = [\<lparr>id_msg = ''m1'', chat_jid = ''123@g.us'', sender = ''555@s.whatsapp.net'',
       content = ''look'', timestamp = ''2023-11-14 22:13:20'', is_from_me = False,
       media_type = ''image''\<rparr>]"
  by (simp add: handleEvent_def do_StoreMessage_def
      StoreMessage_def chat_exists_def ex_run_def one_chat_store_def
      ex_event_def text_payload_def ex_lib_def extractTextContent_def
      GetConversation_def replace_message_def message_of_def event_mediaType_def
      GetImageMessage_def)

lemma only_text_added_refl: "only_text_added w w"
  by (simp add: only_text_added_def)

lemma only_text_added_trans:
  "only_text_added w w1 \<Longrightarrow> only_text_added w1 w2 \<Longrightarrow> only_text_added w w2"
  by (auto simp: only_text_added_def)

lemma do_StoreChat_only_text: "only_text_added w (do_StoreChat l w c n t)"
  by (simp add: only_text_added_def do_StoreChat_def StoreChat_def)

lemma do_StoreMessage_kind:
  "r \<in> set (messages (db (do_StoreMessage l w i c s cnt t f k))) \<Longrightarrow>
   r \<in> set (messages (db w)) \<or> media_type r = k"
  by (auto simp: do_StoreMessage_def StoreMessage_def replace_message_def message_of_def
      split: if_splits)

lemma do_StoreMessage_only_text: "only_text_added w (do_StoreMessage l w i c s cnt t f ''text'')"
  by (auto simp: only_text_added_def dest: do_StoreMessage_kind)

lemma store_history_message_only_text:
  "only_text_added w (result_of (store_history_message l cl j c w m))"
  by (simp add: store_history_message_def result_of_def only_text_added_refl
      do_StoreMessage_only_text split: option.split)

lemma store_history_messages_only_text:
  "only_text_added w (result_of (store_history_messages l cl j c w ms))"
proof (induction ms arbitrary: w)
  case Nil
  then show ?case by (simp add: result_of_def only_text_added_refl)
next
  case (Cons m ms)
  show ?case
  proof (cases "store_history_message l cl j c w m")
    case (Done w1)
    with store_history_message_only_text [of w l cl j c m] have "only_text_added w w1"
      by (simp add: result_of_def)
    with Cons.IH [of w1] Done show ?thesis
      by (auto intro: only_text_added_trans)
  next
    case (Panicked w1)
    with store_history_message_only_text [of w l cl j c m] show ?thesis
      by (simp add: result_of_def)
  qed
qed

lemma sync_conversation_only_text:
  "only_text_added w (result_of (sync_conversation l cl w c))"
proof -
  have "only_text_added w (result_of (store_history_messages l cl j cj (do_StoreChat l w cj n t) ms))"
    for j cj n t ms
    by (rule only_text_added_trans [OF do_StoreChat_only_text store_history_messages_only_text])
  moreover have "only_text_added w (result_of (Done w))"
    by (simp add: result_of_def only_text_added_refl)
  ultimately show ?thesis
    by (simp add: sync_conversation_def Let_def split: option.split sum.split list.split)
qed

lemma handleHistorySync_only_text:
  "only_text_added w (result_of (handleHistorySync l cl w cs))"
proof (induction cs arbitrary: w)
  case Nil
  then show ?case by (simp add: result_of_def only_text_added_refl)
next
  case (Cons c cs)
  show ?case
  proof (cases "sync_conversation l cl w c")
    case (Done w1)
    with sync_conversation_only_text [of w l cl c] have "only_text_added w w1"
      by (simp add: result_of_def)
    with Cons.IH [of w1] Done show ?thesis
      by (auto intro: only_text_added_trans)
  next
    case (Panicked w1)
    with sync_conversation_only_text [of w l cl c] show ?thesis
      by (simp add: result_of_def)
  qed
qed

lemma handleMessage_only_text: "only_text_added w (handleMessage l cl w msg)"
proof -
  have "only_text_added w (do_StoreMessage l (do_StoreChat l w c n t) i c' s cnt t' f ''text'')"
    for c n t i c' s cnt t' f
    by (rule only_text_added_trans [OF do_StoreChat_only_text do_StoreMessage_only_text])
  then show ?thesis
    by (simp add: handleMessage_def Let_def do_StoreChat_only_text)
qed

lemma event_mediaType_text: "no_media_part m \<Longrightarrow> event_mediaType m = ''text''"
  by (simp add: no_media_part_def event_mediaType_def)

text \<open>
  C9, amended. Every row that \<open>handleMessage\<close> or \<open>handleHistorySync\<close> adds
  carries the kind \<open>text\<close>. A row that \<open>handleEvent\<close> adds carries the kind that
  the handler computed from the payload, which is \<open>text\<close> when the payload has no
  image, video, audio or document part.
\<close>

theorem stored_kind_is_text:
  "only_text_added w (handleMessage l cl w msg)
   \<and> only_text_added w (result_of (handleHistorySync l cl w cs))
   \<and> (\<forall>r \<in> set (messages (db (handleEvent l opened w (EvMessage v)))).
        r \<in> set (messages (db w)) \<or> media_type r = event_mediaType (Message v))
   \<and> (no_media_part (Message v) \<longrightarrow> only_text_added w (handleEvent l opened w (EvMessage v)))"
proof (intro conjI impI ballI)
  show "only_text_added w (handleMessage l cl w msg)" by (rule handleMessage_only_text)
  show "only_text_added w (result_of (handleHistorySync l cl w cs))"
    by (rule handleHistorySync_only_text)
  show "r \<in> set (messages (db w)) \<or> media_type r = event_mediaType (Message v)"
    if "r \<in> set (messages (db (handleEvent l opened w (EvMessage v))))" for r
    using that do_StoreMessage_kind by (fastforce simp: handleEvent_def split: if_splits)
  show "only_text_added w (handleEvent l opened w (EvMessage v))" if "no_media_part (Message v)"
    using that
    by (simp add: handleEvent_def event_mediaType_text do_StoreMessage_only_text
        only_text_added_refl)
qed

theorem stored_kind_is_text_witness:
  "no_media_part (Message (ex_event (text_payload ''buy 10'')))
   \<and> only_text_added (ex_run one_chat_store)
         (handleEvent ex_lib True (ex_run one_chat_store)
            (EvMessage (ex_event (text_payload ''buy 10''))))
   \<and> messages (db (handleEvent ex_lib True (ex_run one_chat_store)
         (EvMessage (ex_event (text_payload ''buy 10'')))))
     = [\<lparr>id_msg = ''m1'', chat_jid = ''123@g.us'', sender = ''555@s.whatsapp.net'',
         content = ''buy 10'', timestamp = ''2023-11-14 22:13:20'', is_from_me = False,
         media_type = ''text''\<rparr>]"
proof -
  have h: "no_media_part (Message (ex_event (text_payload ''buy 10'')))"
    by (simp add: no_media_part_def ex_event_def text_payload_def GetImageMessage_def
        GetVideoMessage_def GetAudioMessage_def GetDocumentMessage_def)
  note t = stored_kind_is_text [where v = "ex_event (text_payload ''buy 10'')" and l = ex_lib
      and opened = True and w = "ex_run one_chat_store" and cl = ex_client
      and msg = "ex_event (text_payload ''buy 10'')" and cs = "[]",
      THEN conjunct2, THEN conjunct2, THEN conjunct2, THEN mp, OF h]
  have m: "messages (db (handleEvent ex_lib True (ex_run one_chat_store)
         (EvMessage (ex_event (text_payload ''buy 10'')))))
     = [\<lparr>id_msg = ''m1'', chat_jid = ''123@g.us'', sender = ''555@s.whatsapp.net'',
         content = ''buy 10'', timestamp = ''2023-11-14 22:13:20'', is_from_me = False,
         media_type = ''text''\<rparr>]"
    by (simp add: handleEvent_def do_StoreMessage_def
        StoreMessage_def chat_exists_def ex_run_def one_chat_store_def
        ex_event_def text_payload_def ex_lib_def extractTextContent_def
        GetConversation_def replace_message_def message_of_def event_mediaType_def
        GetImageMessage_def GetVideoMessage_def GetAudioMessage_def GetDocumentMessage_def)
  from h t m show ?thesis by simp
qed

end
